theory Spec2Isabelle
  imports Complex_Main "HOL-Library.Word"
begin

section \<open>Numeric values\<close>

text \<open>
  A Go \<open>float64\<close> is modelled by its value class: a finite number, one of the two
  infinities, or NaN. The special values and the rules that produce them (division by
  zero, \<open>Inf - Inf\<close>, comparisons with NaN) follow IEEE 754. A finite result is kept as
  the exact real number: rounding to 53 bits and overflow of a finite result to an
  infinity are not modelled, and the two zeros are identified (the only divisors in the
  code below are converted from integers, so a negative zero is never divided by).
\<close>

datatype float64 = Fin real | PInf | NInf | NaN


fun fmul :: "float64 \<Rightarrow> float64 \<Rightarrow> float64" where
  "fmul NaN _ = NaN"
| "fmul _ NaN = NaN"
| "fmul (Fin a) (Fin b) = Fin (a * b)"
| "fmul (Fin a) PInf = (if a = 0 then NaN else if 0 < a then PInf else NInf)"
| "fmul (Fin a) NInf = (if a = 0 then NaN else if 0 < a then NInf else PInf)"
| "fmul PInf (Fin b) = (if b = 0 then NaN else if 0 < b then PInf else NInf)"
| "fmul NInf (Fin b) = (if b = 0 then NaN else if 0 < b then NInf else PInf)"
| "fmul PInf PInf = PInf"
| "fmul PInf NInf = NInf"
| "fmul NInf PInf = NInf"
| "fmul NInf NInf = PInf"

fun fdiv :: "float64 \<Rightarrow> float64 \<Rightarrow> float64" where
  "fdiv NaN _ = NaN"
| "fdiv _ NaN = NaN"
| "fdiv (Fin a) (Fin b) =
     (if b \<noteq> 0 then Fin (a / b)
      else if a = 0 then NaN else if 0 < a then PInf else NInf)"
| "fdiv (Fin a) _ = Fin 0"
| "fdiv PInf (Fin b) = (if 0 \<le> b then PInf else NInf)"
| "fdiv NInf (Fin b) = (if 0 \<le> b then NInf else PInf)"
| "fdiv _ _ = NaN"

fun fless :: "float64 \<Rightarrow> float64 \<Rightarrow> bool" where
  "fless NaN _ = False"
| "fless _ NaN = False"
| "fless (Fin a) (Fin b) = (a < b)"
| "fless (Fin a) PInf = True"
| "fless (Fin a) NInf = False"
| "fless PInf _ = False"
| "fless NInf NInf = False"
| "fless NInf _ = True"


definition float64_of_int :: "int \<Rightarrow> float64" where
  "float64_of_int i = Fin (of_int i)"

definition float64_of_nat :: "nat \<Rightarrow> float64" where
  "float64_of_nat n = Fin (of_nat n)"

type_synonym uint32 = "32 word"
type_synonym uint64 = "64 word"

section \<open>Time\<close>

text \<open>
  A \<open>time.Time\<close> is the number of nanoseconds since the Unix epoch, a mathematical
  integer. \<open>Unix\<close> is the whole number of seconds (rounded down, as the nanosecond part
  of a Go time is never negative). Differences of Unix seconds are taken in \<open>int\<close>: the
  64-bit subtraction of the source agrees with it for any two times less than
  \<open>2^63\<close> seconds apart.
\<close>

type_synonym Time = int

definition Unix :: "Time \<Rightarrow> int" where
  "Unix t = t div 1000000000"

section \<open>Rate Engine\<close>

datatype error =
    TooLongDuration
  | CounterReset
  | StateUpdated
  | DecodeError
  | OpenError
  | SyntaxError
  | RangeError
  | FormatError


definition calcDiffUint32 ::
  "uint32 \<Rightarrow> Time \<Rightarrow> uint32 \<Rightarrow> Time \<Rightarrow> float64 \<Rightarrow> error + float64" where
  "calcDiffUint32 value now lastValue lastTime lastDiff =
     (let diffTime = Unix now - Unix lastTime in
      if 600 < diffTime then Inl TooLongDuration
      else
        let diff = fdiv (float64_of_nat (unat ((value - lastValue) * 60)))
                        (float64_of_int diffTime) in
        if lastValue \<le> value \<or> fless diff (fmul lastDiff (Fin 10)) then Inr diff
        else Inl CounterReset)"

definition calcDiffUint64 ::
  "uint64 \<Rightarrow> Time \<Rightarrow> uint64 \<Rightarrow> Time \<Rightarrow> float64 \<Rightarrow> error + float64" where
  "calcDiffUint64 value now lastValue lastTime lastDiff =
     (let diffTime = Unix now - Unix lastTime in
      if 600 < diffTime then Inl TooLongDuration
      else
        let diff = fdiv (float64_of_nat (unat ((value - lastValue) * 60)))
                        (float64_of_int diffTime) in
        if lastValue \<le> value \<or> fless diff (fmul lastDiff (Fin 10)) then Inr diff
        else Inl CounterReset)"

section \<open>Version Model\<close>

text \<open>
  \<open>fmt_d\<close> is the \<open>%d\<close> verb of \<open>fmt.Sprintf\<close> on an unsigned integer: its decimal
  digits, most significant first, without sign or padding.
\<close>

definition digit_char :: "nat \<Rightarrow> char" where
  "digit_char d = char_of (48 + d)"

fun fmt_d :: "nat \<Rightarrow> string" where
  "fmt_d n = (if n < 10 then [digit_char n] else fmt_d (n div 10) @ [digit_char (n mod 10)])"

declare fmt_d.simps [simp del]

text \<open>
  \<open>strconv.ParseUint(s, 10, bitSize)\<close> of the Go library. The result is the pair of the
  returned number and the error: on a syntax error the number is 0, on a range error it
  is the largest value of the bit size. In base 10 every byte other than a digit is a
  syntax error. \<open>cutoff\<close> is the library's constant \<open>maxUint64/10 + 1\<close>.
\<close>

definition is_digit :: "char \<Rightarrow> bool" where
  "is_digit c = (48 \<le> (of_char c :: nat) \<and> (of_char c :: nat) \<le> 57)"

definition digit_val :: "char \<Rightarrow> nat" where
  "digit_val c = of_char c - 48"

definition cutoff :: nat where
  "cutoff = (2 ^ 64 - 1) div 10 + 1"

definition maxVal :: "nat \<Rightarrow> nat" where
  "maxVal bitSize = 2 ^ bitSize - 1"

fun parse_digits :: "nat \<Rightarrow> string \<Rightarrow> nat \<Rightarrow> nat \<times> error option" where
  "parse_digits bitSize [] n = (n, None)"
| "parse_digits bitSize (c # cs) n =
     (if \<not> is_digit c then (0, Some SyntaxError)
      else if cutoff \<le> n then (maxVal bitSize, Some RangeError)
      else
        let n1 = n * 10 + digit_val c in
        if maxVal bitSize < n1 then (maxVal bitSize, Some RangeError)
        else parse_digits bitSize cs n1)"

definition ParseUint :: "string \<Rightarrow> nat \<Rightarrow> nat \<times> error option" where
  "ParseUint s bitSize = (if s = [] then (0, Some SyntaxError) else parse_digits bitSize s 0)"

text \<open>\<open>strings.SplitN(s, sep, n)\<close> for a separator of one byte.\<close>

fun SplitN :: "string \<Rightarrow> char \<Rightarrow> nat \<Rightarrow> string list" where
  "SplitN s sep 0 = []"
| "SplitN s sep (Suc 0) = [s]"
| "SplitN s sep (Suc (Suc n)) =
     (if sep \<in> set s
      then takeWhile (\<lambda>c. c \<noteq> sep) s # SplitN (tl (dropWhile (\<lambda>c. c \<noteq> sep) s)) sep (Suc n)
      else [s])"

record Version =
  Major :: uint32
  Minor :: uint32
  Patch :: uint32

definition Version_zero :: Version where
  "Version_zero = \<lparr>Major = 0, Minor = 0, Patch = 0\<rparr>"

definition Version_String :: "Version \<Rightarrow> string" where
  "Version_String v =
     fmt_d (unat (Major v)) @ ''.'' @ fmt_d (unat (Minor v)) @ ''.'' @ fmt_d (unat (Patch v))"

definition ParseVersion :: "string \<Rightarrow> error + Version" where
  "ParseVersion s =
     (let versionSplit = SplitN s (CHR ''.'') 3 in
      if length versionSplit < 3 then Inl FormatError
      else
        case ParseUint (versionSplit ! 0) 32 of
          (_, Some e) \<Rightarrow> Inl e
        | (n0, None) \<Rightarrow>
        (case ParseUint (versionSplit ! 1) 32 of
          (_, Some e) \<Rightarrow> Inl e
        | (n1, None) \<Rightarrow>
        (case ParseUint (versionSplit ! 2) 32 of
          (_, Some e) \<Rightarrow> Inl e
        | (n2, None) \<Rightarrow>
            Inr \<lparr>Major = of_nat n0, Minor = of_nat n1, Patch = of_nat n2\<rparr>)))"

definition LessThan :: "Version \<Rightarrow> Version \<Rightarrow> bool" where
  "LessThan v other =
     (if Major v < Major other then True
      else if Major other < Major v then False
      else if Minor v < Minor other then True
      else if Minor other < Minor v then False
      else if Patch v < Patch other then True
      else if Patch other < Patch v then False
      else False)"

section \<open>Regular expressions\<close>

text \<open>
  The fragment of Go's \<open>regexp\<close> syntax that the two patterns of the program use: a
  pattern is a sequence of literals, greedy repetitions of a character class,
  alternations of literals, and the markers that open and close a capturing group
  (groups are not nested in either pattern). The classes are those of RE2: \<open>\w\<close>,
  \<open>\s\<close> and \<open>\d\<close> are ASCII only, and \<open>.\<close> is every byte but the newline.
\<close>

datatype cls = CWord | CSpace | CDigit | CAny | CMetric

definition is_lower :: "char \<Rightarrow> bool" where
  "is_lower c = (97 \<le> (of_char c :: nat) \<and> (of_char c :: nat) \<le> 122)"

definition is_upper :: "char \<Rightarrow> bool" where
  "is_upper c = (65 \<le> (of_char c :: nat) \<and> (of_char c :: nat) \<le> 90)"

fun in_cls :: "cls \<Rightarrow> char \<Rightarrow> bool" where
  "in_cls CWord c = (is_digit c \<or> is_upper c \<or> is_lower c \<or> c = CHR ''_'')"
| "in_cls CSpace c = (c = CHR 0x09 \<or> c = CHR 0x0A \<or> c = CHR 0x0C \<or> c = CHR 0x0D \<or> c = CHR '' '')"
| "in_cls CDigit c = is_digit c"
| "in_cls CAny c = (c \<noteq> CHR 0x0A)"
| "in_cls CMetric c = (c = CHR ''-'' \<or> is_lower c \<or> is_upper c \<or> is_digit c \<or> c = CHR ''_'')"

datatype item =
    Lit string
  | Rep cls nat "nat option"
  | Alt "string list"
  | GOpen
  | GClose

type_synonym regex = "item list"

fun first_Some :: "'a option list \<Rightarrow> 'a option" where
  "first_Some [] = None"
| "first_Some (None # xs) = first_Some xs"
| "first_Some (Some y # xs) = Some y"

text \<open>
  The numbers of bytes a greedy repetition may take, in the order a backtracking search
  tries them: the longest run first (cut at the upper bound), down to the lower bound.
\<close>

definition counts :: "cls \<Rightarrow> nat \<Rightarrow> nat option \<Rightarrow> string \<Rightarrow> nat list" where
  "counts k lo hi s =
     (let m = length (takeWhile (in_cls k) s);
          top = (case hi of None \<Rightarrow> m | Some h \<Rightarrow> min h m)
      in rev [lo ..< Suc top])"

text \<open>
  \<open>rmatch r s g caps\<close> matches the pattern \<open>r\<close> at the start of \<open>s\<close>. \<open>g\<close> is the text
  consumed since the last group marker and \<open>caps\<close> the groups closed so far. The result is
  the first success in backtracking order, which is the match Go's leftmost-first
  semantics selects: the captured groups and the unmatched rest of the input.
\<close>

fun rmatch :: "regex \<Rightarrow> string \<Rightarrow> string \<Rightarrow> string list \<Rightarrow> (string list \<times> string) option" where
  "rmatch [] s g caps = Some (caps, s)"
| "rmatch (Lit w # r) s g caps =
     (if take (length w) s = w then rmatch r (drop (length w) s) (g @ w) caps else None)"
| "rmatch (Rep k lo hi # r) s g caps =
     first_Some (map (\<lambda>n. rmatch r (drop n s) (g @ take n s) caps) (counts k lo hi s))"
| "rmatch (Alt ws # r) s g caps =
     first_Some (map (\<lambda>w. if take (length w) s = w
                            then rmatch r (drop (length w) s) (g @ w) caps else None) ws)"
| "rmatch (GOpen # r) s g caps = rmatch r s [] caps"
| "rmatch (GClose # r) s g caps = rmatch r s [] (caps @ [g])"

text \<open>
  Both patterns of the program start with an anchor (\<open>^\<close> without the multi-line flag,
  \<open>\A\<close>), so a search succeeds only at the start of the text. \<open>FindStringSubmatch\<close>
  returns the matched text followed by the groups, or the empty list.
\<close>

definition FindStringSubmatch :: "regex \<Rightarrow> string \<Rightarrow> string list" where
  "FindStringSubmatch re s =
     (case rmatch re s [] [] of
        None \<Rightarrow> []
      | Some (caps, rest) \<Rightarrow> take (length s - length rest) s # caps)"

definition MatchString :: "regex \<Rightarrow> string \<Rightarrow> bool" where
  "MatchString re s = (rmatch re s [] [] \<noteq> None)"

section \<open>Descriptor (Meta)\<close>

text \<open>
  \<^verbatim>\<open>^\s*idpc-plugin-(\w+)-(checker|metrics|metadata)\s+version\s+(\d{1,3}\.\d{1,3}\.\d{1,3})\s+\(rev\s+(\w+)\)\s+\[(\w+)\s+(\w+)\s+(.+)]\<close>
\<close>

definition PluginVersionRegex :: regex where
  "PluginVersionRegex =
     [Rep CSpace 0 None, Lit ''idpc-plugin-'',
      GOpen, Rep CWord 1 None, GClose,
      Lit ''-'',
      GOpen, Alt [''checker'', ''metrics'', ''metadata''], GClose,
      Rep CSpace 1 None, Lit ''version'', Rep CSpace 1 None,
      GOpen, Rep CDigit 1 (Some 3), Lit ''.'', Rep CDigit 1 (Some 3), Lit ''.'',
             Rep CDigit 1 (Some 3), GClose,
      Rep CSpace 1 None, Lit ''(rev'', Rep CSpace 1 None,
      GOpen, Rep CWord 1 None, GClose,
      Lit '')'', Rep CSpace 1 None, Lit ''['',
      GOpen, Rep CWord 1 None, GClose,
      Rep CSpace 1 None,
      GOpen, Rep CWord 1 None, GClose,
      Rep CSpace 1 None,
      GOpen, Rep CAny 1 None, GClose,
      Lit '']'']"

definition TypeChecker :: string where "TypeChecker = ''checker''"
definition TypeMetrics :: string where "TypeMetrics = ''metrics''"
definition TypeMetadata :: string where "TypeMetadata = ''metadata''"

definition PLUGIN_PREFIX :: string where "PLUGIN_PREFIX = ''idpc-plugin''"

text \<open>\<open>Type\<close> is a string type in the source; the three constants above are its named values.\<close>

record Meta =
  Key :: string
  Type :: string
  Version :: Version
  Revision :: string
  GOOS :: string
  GOARCH :: string
  GOVersion :: string

definition Meta_zero :: Meta where
  "Meta_zero = \<lparr>Key = [], Type = [], Version = Version_zero, Revision = [],
                 GOOS = [], GOARCH = [], GOVersion = []\<rparr>"

definition Meta_String :: "Meta \<Rightarrow> string" where
  "Meta_String b =
     PLUGIN_PREFIX @ ''-'' @ Key b @ ''-'' @ Type b @ '' version '' @ Version_String (Version b)
       @ '' (rev '' @ Revision b @ '') ['' @ GOOS b @ '' '' @ GOARCH b @ '' '' @ GOVersion b @ '']''"

definition Meta_Name :: "Meta \<Rightarrow> string" where
  "Meta_Name b = PLUGIN_PREFIX @ ''-'' @ Key b @ ''-'' @ Type b"

definition ParseVersionCommand :: "string \<Rightarrow> Meta" where
  "ParseVersionCommand s =
     (let details = FindStringSubmatch PluginVersionRegex s in
      if length details \<noteq> 8 then Meta_zero
      else
        case ParseVersion (details ! 3) of
          Inl err \<Rightarrow> Meta_zero
        | Inr version \<Rightarrow>
            \<lparr>Key = details ! 1, Type = details ! 2, Version = version, Revision = details ! 4,
             GOOS = details ! 5, GOARCH = details ! 6, GOVersion = details ! 7\<rparr>)"

section \<open>Verification: Rate Engine\<close>








text \<open>
  C2. The unsigned variants multiply the wrapped difference by 60 in the counter's own
  width before converting to floating point, so the product wraps as well. For a
  \<open>uint32\<close> counter that rose from 0 to 100000000 in 60 seconds the rate returned is
  \<open>(6000000000 mod 2^32) / 60\<close>, not 100000000; for a \<open>uint64\<close> counter that rose by
  \<open>2^62\<close> the product wraps to 0.
\<close>

theorem calcDiffUint_product_wraps:
  "calcDiffUint32 100000000 60000000000 0 0 (Fin 0) = Inr (Fin (1705032704 / 60)) \<and>
   calcDiffUint32 100000000 60000000000 0 0 (Fin 0) \<noteq> Inr (Fin ((100000000 - 0) * 60 / 60)) \<and>
   calcDiffUint64 4611686018427387904 60000000000 0 0 (Fin 0) = Inr (Fin 0)"
  by (simp add: calcDiffUint32_def calcDiffUint64_def Unix_def float64_of_nat_def
        float64_of_int_def)

section \<open>Verification: Version Model\<close>

lemma is_digit_digit_char: "d < 10 \<Longrightarrow> is_digit (digit_char d)"
  by (simp add: is_digit_def digit_char_def)

lemma digit_val_digit_char: "d < 10 \<Longrightarrow> digit_val (digit_char d) = d"
  by (simp add: digit_val_def digit_char_def)

lemma fmt_d_nonempty: "fmt_d n \<noteq> []"
  by (subst fmt_d.simps) simp

lemma fmt_d_digits: "\<forall>c \<in> set (fmt_d n). is_digit c"
proof (induction n rule: fmt_d.induct)
  case (1 n)
  show ?case
  proof (cases "n < 10")
    case True
    then show ?thesis by (subst fmt_d.simps) (simp add: is_digit_digit_char)
  next
    case False
    with 1 show ?thesis by (subst fmt_d.simps) (simp add: is_digit_digit_char)
  qed
qed

lemma parse_digits_snoc:
  "parse_digits b (xs @ [c]) n =
     (case parse_digits b xs n of
        (m, None) \<Rightarrow> parse_digits b [c] m
      | (m, Some e) \<Rightarrow> (m, Some e))"
  by (induction xs arbitrary: n) (simp_all add: Let_def)

lemma cutoff_gt: "maxVal 64 div 10 < cutoff"
  by (simp add: cutoff_def maxVal_def)

lemma maxVal_mono: "b \<le> 64 \<Longrightarrow> maxVal b \<le> maxVal 64"
  unfolding maxVal_def by (intro diff_le_mono power_increasing) simp_all

lemma below_cutoff: "n \<le> maxVal b \<Longrightarrow> b \<le> 64 \<Longrightarrow> n div 10 < cutoff"
proof -
  assume "n \<le> maxVal b" "b \<le> 64"
  then have "n \<le> maxVal 64" using maxVal_mono by fastforce
  then have "n div 10 \<le> maxVal 64 div 10" by (rule div_le_mono)
  with cutoff_gt show ?thesis by linarith
qed

lemma parse_digits_fmt_d:
  "n \<le> maxVal b \<Longrightarrow> b \<le> 64 \<Longrightarrow> parse_digits b (fmt_d n) 0 = (n, None)"
proof (induction n rule: fmt_d.induct)
  case (1 n)
  show ?case
  proof (cases "n < 10")
    case True
    have c: "0 < cutoff" using cutoff_gt by linarith
    with True 1(2) show ?thesis
      by (subst fmt_d.simps) (simp add: is_digit_digit_char digit_val_digit_char)
  next
    case False
    have le: "n div 10 \<le> maxVal b" using 1(2) by linarith
    have lt: "n div 10 < cutoff" using 1(2,3) by (rule below_cutoff)
    have ih: "parse_digits b (fmt_d (n div 10)) 0 = (n div 10, None)"
      using 1(1)[OF False le 1(3)] .
    show ?thesis
      using False lt 1(2)
      by (subst fmt_d.simps)
         (simp add: parse_digits_snoc ih is_digit_digit_char digit_val_digit_char)
  qed
qed

lemma dot_not_digit: "\<not> is_digit (CHR ''.'')"
  by (simp add: is_digit_def)

lemma fmt_d_no_dot: "CHR ''.'' \<notin> set (fmt_d n)"
  using fmt_d_digits dot_not_digit by blast

lemma takeWhile_sep: "sep \<notin> set a \<Longrightarrow> takeWhile (\<lambda>c. c \<noteq> sep) (a @ sep # r) = a"
  by (induction a) auto

lemma dropWhile_sep: "sep \<notin> set a \<Longrightarrow> dropWhile (\<lambda>c. c \<noteq> sep) (a @ sep # r) = sep # r"
  by (induction a) auto

lemma SplitN_3:
  "sep \<notin> set a \<Longrightarrow> sep \<notin> set b \<Longrightarrow> SplitN (a @ sep # b @ sep # c) sep 3 = [a, b, c]"
  by (simp add: numeral_3_eq_3 takeWhile_sep dropWhile_sep)

lemma ParseUint_fmt_d: "n \<le> maxVal b \<Longrightarrow> b \<le> 64 \<Longrightarrow> ParseUint (fmt_d n) b = (n, None)"
  by (simp add: ParseUint_def fmt_d_nonempty parse_digits_fmt_d)

lemma unat_le_maxVal32: "unat (w :: uint32) \<le> maxVal 32"
proof -
  have "unat w < 2 ^ 32" using unsigned_less[of w] by simp
  then show ?thesis by (simp add: maxVal_def)
qed

lemma ParseUint_uint32: "ParseUint (fmt_d (unat (w :: uint32))) 32 = (unat w, None)"
  by (rule ParseUint_fmt_d[OF unat_le_maxVal32]) simp

lemma SplitN_Version_String:
  "SplitN (Version_String v) (CHR ''.'') 3 =
     [fmt_d (unat (Major v)), fmt_d (unat (Minor v)), fmt_d (unat (Patch v))]"
  unfolding Version_String_def using SplitN_3[OF fmt_d_no_dot fmt_d_no_dot] by simp

text \<open>
  C8. For every version, whatever its three 32-bit components are, parsing its
  dotted-decimal rendering succeeds and gives the version back.
\<close>

theorem Version_roundtrip: "ParseVersion (Version_String v) = Inr v"
  by (simp add: ParseVersion_def SplitN_Version_String ParseUint_uint32)

end
